theory Spec2Isabelle
  imports Main "HOL-Library.Word" "HOL-Library.Monad_Syntax"
begin

unbundle bit_operations_syntax

section \<open>Data model (types.go)\<close>

type_synonym u8 = "8 word"
type_synonym u16 = "16 word"
type_synonym u64 = "64 word"

text \<open>Piece types are small unsigned integers; \<open>Promote\<close> can return any value in 0..7.\<close>

type_synonym Piece = nat

definition Nothing :: Piece where "Nothing = 0"
definition Pawn :: Piece where "Pawn = 1"
definition Knight :: Piece where "Knight = 2"
definition Bishop :: Piece where "Bishop = 3"
definition Rook :: Piece where "Rook = 4"
definition Queen :: Piece where "Queen = 5"
definition King :: Piece where "King = 6"

lemmas Piece_defs = Nothing_def Pawn_def Knight_def Bishop_def Rook_def Queen_def King_def

text \<open>The aggregate mask \<open>All\<close> of the source is the field \<open>Allbb\<close>.\<close>

record Bitboards =
  Pawns :: u64
  Bishops :: u64
  Knights :: u64
  Rooks :: u64
  Queens :: u64
  Kings :: u64
  Allbb :: u64

type_synonym Move = u16

definition To :: "Move \<Rightarrow> u8" where
  "To m = ucast (m AND 0x3F)"

definition From :: "Move \<Rightarrow> u8" where
  "From m = ucast (drop_bit 6 (m AND 0xFC0))"

definition Promote :: "Move \<Rightarrow> Piece" where
  "Promote m = unat (drop_bit 12 (m AND 0x7000))"

text \<open>\<open>Setto\<close>, \<open>Setfrom\<close> and \<open>Setpromote\<close> take a \<open>Square\<close> or \<open>Piece\<close> (both uint8) and
  convert it to the 16-bit move type before shifting.\<close>

definition Setto :: "u8 \<Rightarrow> Move \<Rightarrow> Move" where
  "Setto s m = (m AND NOT 0x3F) OR ucast s"

definition Setfrom :: "u8 \<Rightarrow> Move \<Rightarrow> Move" where
  "Setfrom s m = (m AND NOT 0xFC0) OR push_bit 6 (ucast s)"


text \<open>Pointers to a bitboard field of a board: the address of the board, the side
  (\<open>True\<close> for White) and the field.\<close>

datatype bbfield = FPawns | FBishops | FKnights | FRooks | FQueens | FKings | FAll

type_synonym addr = nat

datatype bbptr = BBPtr addr bool bbfield

record History =
  hashBefore :: u64
  hashCurrent :: u64
  resetHalfmoveClockFrom :: int
  oldRookLoc :: u8
  newRookLoc :: u8
  flippedKsCastle :: bool
  flippedQsCastle :: bool
  flippedOppKsCastle :: bool
  flippedOppQsCastle :: bool
  capturedBitboard :: "bbptr option"
  actuallyPerformedEpCapture :: bool
  m :: Move
  oldEpCaptureSquare :: u8
  castleStatus :: int
  capturedPieceType :: Piece
  pieceType :: Piece
  promotedToPieceType :: Piece
  destTypeBitboard :: "bbptr option"
  pieceTypeBitboard :: "bbptr option"

type_synonym Termination = u16

definition TerminationNone :: Termination where "TerminationNone = 0"
definition TerminationInsufficientMaterial :: Termination where
  "TerminationInsufficientMaterial = 8"


record Board =
  Wtomove :: bool
  enpassant :: u8
  castlerights :: u8
  Halfmoveclock :: u8
  Fullmoveno :: u16
  White :: Bitboards
  Black :: Bitboards
  hash :: u64
  history :: "History list"
  termination' :: Termination
  irreversibleIdx :: int

definition Hash :: "Board \<Rightarrow> u64" where
  "Hash b = hash b"

section \<open>Insufficient material\<close>

definition oneOrLess :: "u64 \<Rightarrow> u64 \<Rightarrow> bool" where
  "oneOrLess b k \<longleftrightarrow> k = 0 \<or> (k AND (k - 1)) = 0 \<or> b = 0 \<or> (b AND (b - 1)) = 0"

text \<open>\<open>IsInsufficientMaterial\<close> returns its verdict and the board with the termination
  reason it may have stored.\<close>

definition IsInsufficientMaterial :: "Board \<Rightarrow> bool \<times> Board" where
  "IsInsufficientMaterial b =
    (if (Queens (White b) OR Rooks (White b) OR Pawns (White b)) \<noteq> 0 \<or>
        (Queens (Black b) OR Rooks (Black b) OR Pawns (Black b)) \<noteq> 0
     then (False, b)
     else if oneOrLess (Bishops (White b)) (Knights (White b)) \<or>
             oneOrLess (Bishops (Black b)) (Knights (Black b))
     then (True, b\<lparr>termination' := TerminationInsufficientMaterial\<rparr>)
     else (False, b))"

section \<open>Constants that the move applier reads\<close>

text \<open>Modelled from the spec: the rank and file masks \<open>onlyRank\<close> and \<open>onlyFile\<close> (the
  constants file is absent). Square \<open>i\<close> is bit \<open>i\<close>, rank \<open>r\<close> holds the squares \<open>8r..8r+7\<close>
  and file \<open>f\<close> the squares congruent to \<open>f\<close> modulo 8.\<close>

definition onlyRank :: "nat \<Rightarrow> u64" where
  "onlyRank r = push_bit (8 * r) 0xFF"

definition onlyFile :: "nat \<Rightarrow> u64" where
  "onlyFile f = push_bit f 0x0101010101010101"

text \<open>The Zobrist tables are random constants of the absent constants file; every function
  that reads them takes them as a parameter. \<open>pieceSquareZobristC\<close> has 12 rows (six piece
  kinds for White, then six for Black) of 64 squares, \<open>castleRightsZobristC\<close> has 4 entries.\<close>

record zobrist =
  pieceSquareZobristC :: "nat \<Rightarrow> nat \<Rightarrow> u64"
  castleRightsZobristC :: "nat \<Rightarrow> u64"
  whiteToMoveZobristC :: u64

text \<open>An indexing \<open>pieceSquareZobristC[i][sq]\<close>; \<open>None\<close> is Go's index-out-of-range panic.\<close>

definition zsq :: "zobrist \<Rightarrow> int \<Rightarrow> u8 \<Rightarrow> u64 option" where
  "zsq zc i sq = (if 0 \<le> i \<and> i < 12 \<and> unat sq < 64
                  then Some (pieceSquareZobristC zc (nat i) (unat sq)) else None)"

text \<open>\<open>uint64(1) << s\<close> for a uint8 shift count: Go yields 0 once the count reaches 64.\<close>

definition sqbit :: "u8 \<Rightarrow> u64" where
  "sqbit s = push_bit (unat s) 1"

text \<open>Modelled from the spec: \<open>IsCapture\<close> (its file is absent). The halfmove clock resets
  on any capture, and a move captures when its destination square is occupied.\<close>

definition IsCapture :: "Move \<Rightarrow> Board \<Rightarrow> bool" where
  "IsCapture mv b \<longleftrightarrow>
     (sqbit (To mv) AND Allbb (White b)) \<noteq> 0 \<or> (sqbit (To mv) AND Allbb (Black b)) \<noteq> 0"

section \<open>Castling rights helpers\<close>

definition whiteCanCastleQueenside :: "Board \<Rightarrow> bool" where
  "whiteCanCastleQueenside b \<longleftrightarrow> castlerights b AND 1 = 1"

definition whiteCanCastleKingside :: "Board \<Rightarrow> bool" where
  "whiteCanCastleKingside b \<longleftrightarrow> drop_bit 1 (castlerights b AND 0x2) = 1"

definition blackCanCastleQueenside :: "Board \<Rightarrow> bool" where
  "blackCanCastleQueenside b \<longleftrightarrow> drop_bit 2 (castlerights b AND 0x4) = 1"

definition blackCanCastleKingside :: "Board \<Rightarrow> bool" where
  "blackCanCastleKingside b \<longleftrightarrow> drop_bit 3 (castlerights b AND 0x8) = 1"

definition canCastleQueenside :: "Board \<Rightarrow> bool" where
  "canCastleQueenside b =
     (if Wtomove b then whiteCanCastleQueenside b else blackCanCastleQueenside b)"

definition canCastleKingside :: "Board \<Rightarrow> bool" where
  "canCastleKingside b =
     (if Wtomove b then whiteCanCastleKingside b else blackCanCastleKingside b)"

definition oppCanCastleQueenside :: "Board \<Rightarrow> bool" where
  "oppCanCastleQueenside b =
     (if Wtomove b then blackCanCastleQueenside b else whiteCanCastleQueenside b)"

definition oppCanCastleKingside :: "Board \<Rightarrow> bool" where
  "oppCanCastleKingside b =
     (if Wtomove b then blackCanCastleKingside b else whiteCanCastleKingside b)"

definition flipWhiteQueensideCastle :: "zobrist \<Rightarrow> Board \<Rightarrow> Board" where
  "flipWhiteQueensideCastle zc b =
     b\<lparr>castlerights := castlerights b XOR 1, hash := hash b XOR castleRightsZobristC zc 1\<rparr>"

definition flipWhiteKingsideCastle :: "zobrist \<Rightarrow> Board \<Rightarrow> Board" where
  "flipWhiteKingsideCastle zc b =
     b\<lparr>castlerights := castlerights b XOR push_bit 1 1,
       hash := hash b XOR castleRightsZobristC zc 0\<rparr>"

definition flipBlackQueensideCastle :: "zobrist \<Rightarrow> Board \<Rightarrow> Board" where
  "flipBlackQueensideCastle zc b =
     b\<lparr>castlerights := castlerights b XOR push_bit 2 1,
       hash := hash b XOR castleRightsZobristC zc 3\<rparr>"

definition flipBlackKingsideCastle :: "zobrist \<Rightarrow> Board \<Rightarrow> Board" where
  "flipBlackKingsideCastle zc b =
     b\<lparr>castlerights := castlerights b XOR push_bit 3 1,
       hash := hash b XOR castleRightsZobristC zc 2\<rparr>"

definition flipQueensideCastle :: "zobrist \<Rightarrow> Board \<Rightarrow> Board" where
  "flipQueensideCastle zc b =
     (if Wtomove b then flipWhiteQueensideCastle zc b else flipBlackQueensideCastle zc b)"

definition flipKingsideCastle :: "zobrist \<Rightarrow> Board \<Rightarrow> Board" where
  "flipKingsideCastle zc b =
     (if Wtomove b then flipWhiteKingsideCastle zc b else flipBlackKingsideCastle zc b)"

definition flipOppQueensideCastle :: "zobrist \<Rightarrow> Board \<Rightarrow> Board" where
  "flipOppQueensideCastle zc b =
     (if Wtomove b then flipBlackQueensideCastle zc b else flipWhiteQueensideCastle zc b)"

definition flipOppKingsideCastle :: "zobrist \<Rightarrow> Board \<Rightarrow> Board" where
  "flipOppKingsideCastle zc b =
     (if Wtomove b then flipBlackKingsideCastle zc b else flipWhiteKingsideCastle zc b)"

section \<open>Bitboard fields behind pointers\<close>

fun bbget :: "bbfield \<Rightarrow> Bitboards \<Rightarrow> u64" where
  "bbget FPawns bb = Pawns bb"
| "bbget FBishops bb = Bishops bb"
| "bbget FKnights bb = Knights bb"
| "bbget FRooks bb = Rooks bb"
| "bbget FQueens bb = Queens bb"
| "bbget FKings bb = Kings bb"
| "bbget FAll bb = Allbb bb"

fun bbset :: "bbfield \<Rightarrow> u64 \<Rightarrow> Bitboards \<Rightarrow> Bitboards" where
  "bbset FPawns v bb = bb\<lparr>Pawns := v\<rparr>"
| "bbset FBishops v bb = bb\<lparr>Bishops := v\<rparr>"
| "bbset FKnights v bb = bb\<lparr>Knights := v\<rparr>"
| "bbset FRooks v bb = bb\<lparr>Rooks := v\<rparr>"
| "bbset FQueens v bb = bb\<lparr>Queens := v\<rparr>"
| "bbset FKings v bb = bb\<lparr>Kings := v\<rparr>"
| "bbset FAll v bb = bb\<lparr>Allbb := v\<rparr>"

definition side :: "bool \<Rightarrow> Board \<Rightarrow> Bitboards" where
  "side w b = (if w then White b else Black b)"

definition set_side :: "bool \<Rightarrow> Bitboards \<Rightarrow> Board \<Rightarrow> Board" where
  "set_side w bb b = (if w then b\<lparr>White := bb\<rparr> else b\<lparr>Black := bb\<rparr>)"

text \<open>Read and read-modify-write of one bitboard field of one side of a board.\<close>

definition fld :: "bool \<Rightarrow> bbfield \<Rightarrow> Board \<Rightarrow> u64" where
  "fld w f b = bbget f (side w b)"

definition upd :: "bool \<Rightarrow> bbfield \<Rightarrow> (u64 \<Rightarrow> u64) \<Rightarrow> Board \<Rightarrow> Board" where
  "upd w f g b = set_side w (bbset f (g (bbget f (side w b))) (side w b)) b"

text \<open>\<open>determinePieceType\<close> returns the piece kind and a pointer to the field of the given
  side that holds it (the aggregate mask when no piece is found).\<close>

definition determinePieceType :: "Bitboards \<Rightarrow> u64 \<Rightarrow> Piece \<times> bbfield" where
  "determinePieceType bb squareMask =
    (if (squareMask AND Pawns bb) \<noteq> 0 then (Pawn, FPawns)
     else if (squareMask AND Knights bb) \<noteq> 0 then (Knight, FKnights)
     else if (squareMask AND Bishops bb) \<noteq> 0 then (Bishop, FBishops)
     else if (squareMask AND Rooks bb) \<noteq> 0 then (Rook, FRooks)
     else if (squareMask AND Queens bb) \<noteq> 0 then (Queen, FQueens)
     else if (squareMask AND Kings bb) \<noteq> 0 then (King, FKings)
     else (Nothing, FAll))"

section \<open>Make (apply.go)\<close>

text \<open>The per-side configuration at the head of \<open>Make\<close>; \<open>w\<close> is \<open>Wtomove\<close>. \<open>epDelta\<close> is an
  int8 in the source; the sums it enters are converted back to uint8, so it is kept as a
  byte (\<open>- 8\<close> is 248).\<close>

definition epDelta :: "bool \<Rightarrow> u8" where
  "epDelta w = (if w then - 8 else 8)"

definition oppStartingRankBb :: "bool \<Rightarrow> u64" where
  "oppStartingRankBb w = (if w then onlyRank 7 else onlyRank 0)"

definition ourStartingRankBb :: "bool \<Rightarrow> u64" where
  "ourStartingRankBb w = (if w then onlyRank 0 else onlyRank 7)"

definition ourPiecesPawnZobristIndex :: "bool \<Rightarrow> int" where
  "ourPiecesPawnZobristIndex w = (if w then 0 else 6)"

definition oppPiecesPawnZobristIndex :: "bool \<Rightarrow> int" where
  "oppPiecesPawnZobristIndex w = (if w then 6 else 0)"

text \<open>The blocks of \<open>Make\<close>, in source order. Each takes the board as the previous block left
  it. \<open>None\<close> is an index-out-of-range panic of a Zobrist table lookup.\<close>

text \<open>Halfmove clock: reset on a capture or pawn move, and the ply index recorded.\<close>

definition Make_clock :: "Move \<Rightarrow> Piece \<Rightarrow> Board \<Rightarrow> int \<times> Board" where
  "Make_clock mv pt b =
     (if IsCapture mv b \<or> pt = Pawn
      then (uint (Halfmoveclock b),
            b\<lparr>Halfmoveclock := 0, irreversibleIdx := int (length (history b)) - 1\<rparr>)
      else (- 1, b\<lparr>Halfmoveclock := Halfmoveclock b + 1\<rparr>))"

text \<open>King moves: castle status and rook squares, then the mover's rights are stripped.\<close>

definition Make_castleGeom :: "Move \<Rightarrow> Piece \<Rightarrow> int \<times> u8 \<times> u8" where
  "Make_castleGeom mv pt =
     (if pt = King then
        (if To mv - From mv = 2 then (1, To mv + 1, To mv - 1)
         else if uint (To mv) - uint (From mv) = - 2 then (- 1, To mv - 2, To mv + 1)
         else (0, 0, 0))
      else (0, 0, 0))"

definition Make_kingRights :: "zobrist \<Rightarrow> Piece \<Rightarrow> Board \<Rightarrow> bool \<times> bool \<times> Board" where
  "Make_kingRights zc pt b =
     (if pt = King then
        (let ks = canCastleKingside b;
             b = (if ks then flipKingsideCastle zc b else b);
             qs = canCastleQueenside b;
             b = (if qs then flipQueensideCastle zc b else b)
         in (ks, qs, b))
      else (False, False, b))"

text \<open>Rook moves from a home corner strip the matching right.\<close>

definition Make_rookRights :: "zobrist \<Rightarrow> Piece \<Rightarrow> u64 \<Rightarrow> Board \<Rightarrow> bool \<times> bool \<times> Board" where
  "Make_rookRights zc pt fromBitboard b =
     (if pt = Rook then
        (if canCastleKingside b \<and> (fromBitboard AND onlyFile 7) \<noteq> 0 \<and>
            (fromBitboard AND ourStartingRankBb (Wtomove b)) \<noteq> 0
         then (True, False, flipKingsideCastle zc b)
         else if canCastleQueenside b \<and> (fromBitboard AND onlyFile 0) \<noteq> 0 \<and>
            (fromBitboard AND ourStartingRankBb (Wtomove b)) \<noteq> 0
         then (False, True, flipQueensideCastle zc b)
         else (False, False, b))
      else (False, False, b))"

text \<open>The castling rook movement.\<close>

definition Make_castleRook :: "zobrist \<Rightarrow> int \<Rightarrow> u8 \<Rightarrow> u8 \<Rightarrow> Board \<Rightarrow> Board option" where
  "Make_castleRook zc status oldLoc newLoc b =
     (if status \<noteq> 0 then do {
        let w = Wtomove b;
        let b = upd w FRooks (\<lambda>x. x OR sqbit newLoc) b;
        let b = upd w FAll (\<lambda>x. x OR sqbit newLoc) b;
        let b = upd w FRooks (\<lambda>x. x AND NOT (sqbit oldLoc)) b;
        let b = upd w FAll (\<lambda>x. x AND NOT (sqbit oldLoc)) b;
        z1 \<leftarrow> zsq zc (ourPiecesPawnZobristIndex w + (int Rook - 1)) oldLoc;
        let b = b\<lparr>hash := hash b XOR z1\<rparr>;
        z2 \<leftarrow> zsq zc (ourPiecesPawnZobristIndex w + (int Rook - 1)) newLoc;
        Some (b\<lparr>hash := hash b XOR z2\<rparr>) }
      else Some b)"

text \<open>An en-passant capture strips the passed pawn.\<close>

definition Make_epCapture :: "zobrist \<Rightarrow> Piece \<Rightarrow> Move \<Rightarrow> Board \<Rightarrow> (bool \<times> Board) option" where
  "Make_epCapture zc pt mv b =
     (let oldEpCaptureSquare = enpassant b; w = Wtomove b in
      if pt = Pawn \<and> To mv = oldEpCaptureSquare \<and> oldEpCaptureSquare \<noteq> 0 then do {
        let epOpponentPawnLocation = oldEpCaptureSquare + epDelta w;
        let b = upd (\<not> w) FPawns (\<lambda>x. x AND NOT (sqbit epOpponentPawnLocation)) b;
        let b = upd (\<not> w) FAll (\<lambda>x. x AND NOT (sqbit epOpponentPawnLocation)) b;
        z \<leftarrow> zsq zc (oppPiecesPawnZobristIndex w) epOpponentPawnLocation;
        Some (True, b\<lparr>hash := hash b XOR z\<rparr>) }
      else Some (False, b))"

text \<open>The new en-passant square: set by a pawn double push, cleared otherwise.\<close>

definition Make_epSquare :: "Piece \<Rightarrow> Move \<Rightarrow> Board \<Rightarrow> Board" where
  "Make_epSquare pt mv b =
     (if pt = Pawn \<and> To mv + 2 * epDelta (Wtomove b) = From mv
      then b\<lparr>enpassant := To mv + epDelta (Wtomove b)\<rparr>
      else b\<lparr>enpassant := 0\<rparr>)"

text \<open>Promotion: the bitboard that receives the piece, and its kind.\<close>

definition Make_promotion :: "Move \<Rightarrow> Piece \<Rightarrow> bbfield \<Rightarrow> bbfield \<times> Piece" where
  "Make_promotion mv pt ptBitboard =
     (if Promote mv = Queen then (FQueens, Queen)
      else if Promote mv = Knight then (FKnights, Knight)
      else if Promote mv = Rook then (FRooks, Rook)
      else if Promote mv = Bishop then (FBishops, Bishop)
      else (ptBitboard, pt))"

text \<open>Apply the move: the destination-square capture and the moving piece.\<close>

definition Make_applyMove ::
  "zobrist \<Rightarrow> Move \<Rightarrow> Piece \<Rightarrow> bbfield \<Rightarrow> Piece \<Rightarrow> bbfield \<Rightarrow> Board \<Rightarrow> (Piece \<times> bbfield \<times> Board) option"
where
  "Make_applyMove zc mv pt ptBitboard promoted destBitboard b = do {
     let w = Wtomove b;
     let fromBitboard = sqbit (From mv);
     let toBitboard = sqbit (To mv);
     let (capturedPieceType, capturedBitboard) = determinePieceType (side (\<not> w) b) toBitboard;
     let b = upd w FAll (\<lambda>x. x AND NOT fromBitboard) b;
     let b = upd w FAll (\<lambda>x. x OR toBitboard) b;
     let b = upd w ptBitboard (\<lambda>x. x AND NOT fromBitboard) b;
     let b = upd w destBitboard (\<lambda>x. x OR toBitboard) b;
     b \<leftarrow> (if capturedPieceType \<noteq> Nothing then do {
            let b = upd (\<not> w) capturedBitboard (\<lambda>x. x AND NOT toBitboard) b;
            let b = upd (\<not> w) FAll (\<lambda>x. x AND NOT toBitboard) b;
            z \<leftarrow> zsq zc (oppPiecesPawnZobristIndex w + (int capturedPieceType - 1)) (To mv);
            Some (b\<lparr>hash := hash b XOR z\<rparr>) }
          else Some b);
     z \<leftarrow> zsq zc ((int pt - 1) + ourPiecesPawnZobristIndex w) (From mv);
     let b = b\<lparr>hash := hash b XOR z\<rparr>;
     z \<leftarrow> zsq zc ((int promoted - 1) + ourPiecesPawnZobristIndex w) (To mv);
     Some (capturedPieceType, capturedBitboard, b\<lparr>hash := hash b XOR z\<rparr>) }"

text \<open>A rook captured on its home corner strips the opponent's matching right.\<close>

definition Make_oppRights :: "zobrist \<Rightarrow> Move \<Rightarrow> Piece \<Rightarrow> Board \<Rightarrow> bool \<times> bool \<times> Board" where
  "Make_oppRights zc mv capturedType b =
     (if capturedType = Rook then
        (if To mv mod 8 = 7 \<and> (sqbit (To mv) AND oppStartingRankBb (Wtomove b)) \<noteq> 0 \<and>
            oppCanCastleKingside b
         then (True, False, flipOppKingsideCastle zc b)
         else if To mv mod 8 = 0 \<and> (sqbit (To mv) AND oppStartingRankBb (Wtomove b)) \<noteq> 0 \<and>
            oppCanCastleQueenside b
         then (False, True, flipOppQueensideCastle zc b)
         else (False, False, b))
      else (False, False, b))"

text \<open>Flip the side to move, and fold the old and new en-passant squares into the hash.\<close>

definition Make_flipSide :: "zobrist \<Rightarrow> u8 \<Rightarrow> Board \<Rightarrow> Board" where
  "Make_flipSide zc oldEp b =
     (let b = b\<lparr>hash := hash b XOR whiteToMoveZobristC zc\<rparr>;
          b = b\<lparr>Wtomove := \<not> Wtomove b\<rparr>;
          b = b\<lparr>hash := hash b XOR ucast oldEp\<rparr>
      in b\<lparr>hash := hash b XOR ucast (enpassant b)\<rparr>)"

text \<open>\<open>Make zc a mv b\<close> is the board after \<open>Make(mv)\<close> on the board \<open>b\<close> stored at address
  \<open>a\<close>; the address is only recorded in the pointers of the pushed history entry. Every
  pointer that \<open>Make\<close> writes through was taken from the receiver itself in the same call,
  so the call touches no other board.\<close>

definition Make :: "zobrist \<Rightarrow> addr \<Rightarrow> Move \<Rightarrow> Board \<Rightarrow> Board option" where
  "Make zc a mv b0 = do {
     let hashBefore = hash b0;
     let w = Wtomove b0;
     let b = (if w then b0 else b0\<lparr>Fullmoveno := Fullmoveno b0 + 1\<rparr>);
     let fromBitboard = sqbit (From mv);
     let (pieceType, pieceTypeBitboard) = determinePieceType (side w b) fromBitboard;
     let (resetHalfmoveClockFrom, b) = Make_clock mv pieceType b;
     let (castleStatus, oldRookLoc, newRookLoc) = Make_castleGeom mv pieceType;
     let (kingKs, kingQs, b) = Make_kingRights zc pieceType b;
     let (rookKs, rookQs, b) = Make_rookRights zc pieceType fromBitboard b;
     b \<leftarrow> Make_castleRook zc castleStatus oldRookLoc newRookLoc b;
     let oldEpCaptureSquare = enpassant b;
     (actuallyPerformedEpCapture, b) \<leftarrow> Make_epCapture zc pieceType mv b;
     let b = Make_epSquare pieceType mv b;
     let (destTypeBitboard, promotedToPieceType) =
           Make_promotion mv pieceType pieceTypeBitboard;
     (capturedPieceType, capturedBitboard, b) \<leftarrow>
        Make_applyMove zc mv pieceType pieceTypeBitboard promotedToPieceType destTypeBitboard b;
     let (oppKs, oppQs, b) = Make_oppRights zc mv capturedPieceType b;
     let b = Make_flipSide zc oldEpCaptureSquare b;
     let h = \<lparr>hashBefore = hashBefore, hashCurrent = hash b,
              resetHalfmoveClockFrom = resetHalfmoveClockFrom,
              oldRookLoc = oldRookLoc, newRookLoc = newRookLoc,
              flippedKsCastle = (kingKs \<or> rookKs), flippedQsCastle = (kingQs \<or> rookQs),
              flippedOppKsCastle = oppKs, flippedOppQsCastle = oppQs,
              capturedBitboard = Some (BBPtr a (\<not> w) capturedBitboard),
              actuallyPerformedEpCapture = actuallyPerformedEpCapture,
              m = mv, oldEpCaptureSquare = oldEpCaptureSquare,
              castleStatus = castleStatus, capturedPieceType = capturedPieceType,
              pieceType = pieceType, promotedToPieceType = promotedToPieceType,
              destTypeBitboard = Some (BBPtr a w destTypeBitboard),
              pieceTypeBitboard = Some (BBPtr a w pieceTypeBitboard)\<rparr>;
     Some (b\<lparr>history := history b @ [h]\<rparr>) }"

section \<open>Bit scanning\<close>

text \<open>\<open>bits.TrailingZeros64\<close>: the index of the lowest set bit, 64 for the zero word.\<close>

definition TrailingZeros64 :: "u64 \<Rightarrow> nat" where
  "TrailingZeros64 x = (case find (bit x) [0..<64] of Some i \<Rightarrow> i | None \<Rightarrow> 64)"

text \<open>The loop \<open>for x != 0 { t := TrailingZeros64(x); x &= x - 1; ... }\<close> visits the set bits of
  \<open>x\<close> from the lowest up; \<open>squares x\<close> is the list of the values that \<open>t\<close> takes.\<close>

function squares :: "u64 \<Rightarrow> nat list" where
  "squares x = (if x = 0 then [] else TrailingZeros64 x # squares (x AND (x - 1)))"
  by pat_completeness auto
termination
proof (relation "measure unat")
  show "wf (measure unat)" by simp
next
  fix x :: u64
  assume nz: "x \<noteq> 0"
  have "x AND (x - 1) \<le> x - 1" by (rule word_and_le1)
  moreover have "x - 1 < x" using nz by (simp add: word_less_nat_alt unat_minus_one unat_gt_0)
  ultimately have "x AND (x - 1) < x" by simp
  then show "(x AND (x - 1), x) \<in> measure unat" by (simp add: word_less_nat_alt)
qed

text \<open>\<open>bits.OnesCount64\<close>, the number of set bits, counted as the number of rounds of that
  loop.\<close>

definition OnesCount64 :: "u64 \<Rightarrow> nat" where
  "OnesCount64 x = length (squares x)"

section \<open>Attack tables\<close>

text \<open>Modelled from the spec: the static knight and king jump masks \<open>knightMasks\<close> and
  \<open>kingMasks\<close> (the constants file is absent), as hard-coded tables of 64 entries: the entry
  of a square is the set of squares a knight or king on it can jump to on the 8x8 board.
  Entry \<open>4 * i + j\<close> is the \<open>j\<close>-th number of line \<open>i\<close> below. The callers index the tables
  below 64 only; an index of 64 or more is a panic in the source and is modelled there.\<close>

definition knightMasks_table :: "u64 list" where
  "knightMasks_table =
     [
      0x0000000000020400, 0x0000000000050800, 0x00000000000A1100, 0x0000000000142200,
      0x0000000000284400, 0x0000000000508800, 0x0000000000A01000, 0x0000000000402000,
      0x0000000002040004, 0x0000000005080008, 0x000000000A110011, 0x0000000014220022,
      0x0000000028440044, 0x0000000050880088, 0x00000000A0100010, 0x0000000040200020,
      0x0000000204000402, 0x0000000508000805, 0x0000000A1100110A, 0x0000001422002214,
      0x0000002844004428, 0x0000005088008850, 0x000000A0100010A0, 0x0000004020002040,
      0x0000020400040200, 0x0000050800080500, 0x00000A1100110A00, 0x0000142200221400,
      0x0000284400442800, 0x0000508800885000, 0x0000A0100010A000, 0x0000402000204000,
      0x0002040004020000, 0x0005080008050000, 0x000A1100110A0000, 0x0014220022140000,
      0x0028440044280000, 0x0050880088500000, 0x00A0100010A00000, 0x0040200020400000,
      0x0204000402000000, 0x0508000805000000, 0x0A1100110A000000, 0x1422002214000000,
      0x2844004428000000, 0x5088008850000000, 0xA0100010A0000000, 0x4020002040000000,
      0x0400040200000000, 0x0800080500000000, 0x1100110A00000000, 0x2200221400000000,
      0x4400442800000000, 0x8800885000000000, 0x100010A000000000, 0x2000204000000000,
      0x0004020000000000, 0x0008050000000000, 0x00110A0000000000, 0x0022140000000000,
      0x0044280000000000, 0x0088500000000000, 0x0010A00000000000, 0x0020400000000000
     ]"

definition kingMasks_table :: "u64 list" where
  "kingMasks_table =
     [
      0x0000000000000302, 0x0000000000000705, 0x0000000000000E0A, 0x0000000000001C14,
      0x0000000000003828, 0x0000000000007050, 0x000000000000E0A0, 0x000000000000C040,
      0x0000000000030203, 0x0000000000070507, 0x00000000000E0A0E, 0x00000000001C141C,
      0x0000000000382838, 0x0000000000705070, 0x0000000000E0A0E0, 0x0000000000C040C0,
      0x0000000003020300, 0x0000000007050700, 0x000000000E0A0E00, 0x000000001C141C00,
      0x0000000038283800, 0x0000000070507000, 0x00000000E0A0E000, 0x00000000C040C000,
      0x0000000302030000, 0x0000000705070000, 0x0000000E0A0E0000, 0x0000001C141C0000,
      0x0000003828380000, 0x0000007050700000, 0x000000E0A0E00000, 0x000000C040C00000,
      0x0000030203000000, 0x0000070507000000, 0x00000E0A0E000000, 0x00001C141C000000,
      0x0000382838000000, 0x0000705070000000, 0x0000E0A0E0000000, 0x0000C040C0000000,
      0x0003020300000000, 0x0007050700000000, 0x000E0A0E00000000, 0x001C141C00000000,
      0x0038283800000000, 0x0070507000000000, 0x00E0A0E000000000, 0x00C040C000000000,
      0x0302030000000000, 0x0705070000000000, 0x0E0A0E0000000000, 0x1C141C0000000000,
      0x3828380000000000, 0x7050700000000000, 0xE0A0E00000000000, 0xC040C00000000000,
      0x0203000000000000, 0x0507000000000000, 0x0A0E000000000000, 0x141C000000000000,
      0x2838000000000000, 0x5070000000000000, 0xA0E0000000000000, 0x40C0000000000000
     ]"

definition knightMasks :: "nat \<Rightarrow> u64" where
  "knightMasks s = knightMasks_table ! s"

definition kingMasks :: "nat \<Rightarrow> u64" where
  "kingMasks s = kingMasks_table ! s"

text \<open>A square is a file (index mod 8) and a rank (index div 8).\<close>

definition on_board :: "int \<Rightarrow> int \<Rightarrow> bool" where
  "on_board f r \<longleftrightarrow> 0 \<le> f \<and> f < 8 \<and> 0 \<le> r \<and> r < 8"

definition sq_of :: "int \<Rightarrow> int \<Rightarrow> nat" where
  "sq_of f r = nat (8 * r + f)"

text \<open>Modelled from the spec: the magic-bitboard lookup (the tables and magic constants are
  absent). The spec requires perfect indexing: for every blocker subset the stored set is
  the true attack set. So the lookup for a square and an occupancy is the set of squares
  reached along each ray from the square up to and including the first occupied square.\<close>

fun ray :: "nat \<Rightarrow> int \<Rightarrow> int \<Rightarrow> int \<Rightarrow> int \<Rightarrow> u64 \<Rightarrow> u64" where
  "ray 0 f r df dr occ = 0"
| "ray (Suc n) f r df dr occ =
     (let f' = f + df; r' = r + dr
      in if on_board f' r'
         then (if bit occ (sq_of f' r') then push_bit (sq_of f' r') 1
               else push_bit (sq_of f' r') 1 OR ray n f' r' df dr occ)
         else 0)"

definition rays :: "(int \<times> int) list \<Rightarrow> nat \<Rightarrow> u64 \<Rightarrow> u64" where
  "rays ds s occ =
     foldr (\<lambda>(df, dr) acc. acc OR ray 7 (int (s mod 8)) (int (s div 8)) df dr occ) ds 0"

definition CalculateRookMoveBitboard :: "nat \<Rightarrow> u64 \<Rightarrow> u64" where
  "CalculateRookMoveBitboard currRook allPieces =
     rays [(1, 0), (0, 1), (- 1, 0), (0, - 1)] currRook allPieces"

definition CalculateBishopMoveBitboard :: "nat \<Rightarrow> u64 \<Rightarrow> u64" where
  "CalculateBishopMoveBitboard currBishop allPieces =
     rays [(1, 1), (- 1, 1), (- 1, - 1), (1, - 1)] currBishop allPieces"

section \<open>Attack queries (movegen.go)\<close>

text \<open>The interposing squares of the sliders in \<open>attackers\<close> that attack along \<open>origin_rays\<close>.\<close>

definition interposed :: "(nat \<Rightarrow> u64 \<Rightarrow> u64) \<Rightarrow> u64 \<Rightarrow> u64 \<Rightarrow> u64 \<Rightarrow> u64" where
  "interposed attacks attackers allPieces origin_rays =
     foldl (\<lambda>acc curr_attacker. acc OR (attacks curr_attacker allPieces AND origin_rays))
       0 (squares attackers)"

text \<open>\<open>CountAttacks\<close>: \<open>None\<close> is the index-out-of-range panic of a table lookup at a square
  index of 64 or more. The tables have 64 entries.\<close>

definition CountAttacks :: "Board \<Rightarrow> bool \<Rightarrow> u8 \<Rightarrow> int \<Rightarrow> (int \<times> u64) option" where
  "CountAttacks b byBlack origin abortEarly =
    (if unat origin \<ge> 64 then None
     else Some
      (let allPieces = Allbb (White b) OR Allbb (Black b);
           opponentPieces = (if byBlack then Black b else White b);
           knight_attackers = knightMasks (unat origin) AND Knights opponentPieces;
           numAttacks = int (OnesCount64 knight_attackers);
           blockerDestinations = knight_attackers
       in if numAttacks \<ge> abortEarly then (numAttacks, blockerDestinations)
       else
       let origin_diag_rays = CalculateBishopMoveBitboard (unat origin) allPieces;
           diag_attackers = origin_diag_rays AND (Bishops opponentPieces OR Queens opponentPieces);
           numAttacks = numAttacks + int (OnesCount64 diag_attackers);
           blockerDestinations = blockerDestinations OR diag_attackers
       in if numAttacks \<ge> abortEarly then (numAttacks, blockerDestinations)
       else
       let blockerDestinations = blockerDestinations OR
             interposed CalculateBishopMoveBitboard diag_attackers allPieces origin_diag_rays;
           origin_ortho_rays = CalculateRookMoveBitboard (unat origin) allPieces;
           ortho_attackers = origin_ortho_rays AND (Rooks opponentPieces OR Queens opponentPieces);
           numAttacks = numAttacks + int (OnesCount64 ortho_attackers);
           blockerDestinations = blockerDestinations OR ortho_attackers
       in if numAttacks \<ge> abortEarly then (numAttacks, blockerDestinations)
       else
       let blockerDestinations = blockerDestinations OR
             interposed CalculateRookMoveBitboard ortho_attackers allPieces origin_ortho_rays;
           king_attackers = kingMasks (unat origin) AND Kings opponentPieces;
           numAttacks = numAttacks + int (OnesCount64 king_attackers);
           blockerDestinations = blockerDestinations OR king_attackers
       in if numAttacks \<ge> abortEarly then (numAttacks, blockerDestinations)
       else
       let pawn_attackers_mask =
             (if byBlack
              then (sqbit (origin + 7) AND NOT (onlyFile 7)) OR
                   (sqbit (origin + 9) AND NOT (onlyFile 0))
              else (sqbit (origin - 7) AND NOT (onlyFile 0)) OR
                   (sqbit (origin - 9) AND NOT (onlyFile 7)));
           pawn_attackers_mask = pawn_attackers_mask AND Pawns opponentPieces;
           numAttacks = numAttacks + int (OnesCount64 pawn_attackers_mask);
           blockerDestinations = blockerDestinations OR pawn_attackers_mask
       in (numAttacks, blockerDestinations)))"



definition OurKingInCheck :: "Board \<Rightarrow> bool option" where
  "OurKingInCheck b =
     (let byBlack = Wtomove b;
          origin = (if Wtomove b then of_nat (TrailingZeros64 (Kings (White b)))
                    else of_nat (TrailingZeros64 (Kings (Black b))))
      in map_option (\<lambda>(count, _). count \<ge> 1) (CountAttacks b byBlack origin 1))"

section \<open>Move generation (movegen.go)\<close>




























section \<open>The store of boards, Undo and Clone\<close>

text \<open>History entries hold pointers into the bitboards of the board on which \<open>Make\<close> ran, so
  \<open>Undo\<close> is modelled over a store that maps each address to the board that lives there.\<close>

type_synonym store = "addr \<Rightarrow> Board"

definition Make_st :: "zobrist \<Rightarrow> addr \<Rightarrow> Move \<Rightarrow> store \<Rightarrow> store option" where
  "Make_st zc a mv s = map_option (\<lambda>b. s(a := b)) (Make zc a mv (s a))"

text \<open>A read-modify-write through a pointer; a nil pointer panics.\<close>

fun updp :: "bbptr option \<Rightarrow> (u64 \<Rightarrow> u64) \<Rightarrow> store \<Rightarrow> store option" where
  "updp None g s = None"
| "updp (Some (BBPtr p w f)) g s = Some (s(p := upd w f g (s p)))"

definition Undo :: "zobrist \<Rightarrow> addr \<Rightarrow> store \<Rightarrow> store option" where
  "Undo zc a s0 =
    (if length (history (s0 a)) \<le> 1 then Some s0
     else do {
       let s = s0(a := (s0 a)\<lparr>termination' := TerminationNone\<rparr>);
       let u = last (history (s a));
       let w = \<not> Wtomove (s a);
       let epDelta = (if w then - 8 else 8 :: u8);
       let s = s(a := (s a)\<lparr>Wtomove := \<not> Wtomove (s a)\<rparr>);
       let s = (if resetHalfmoveClockFrom u = - 1
                then s(a := (s a)\<lparr>Halfmoveclock := Halfmoveclock (s a) - 1\<rparr>)
                else s(a := (s a)\<lparr>Halfmoveclock := word_of_int (resetHalfmoveClockFrom u)\<rparr>));
       let fromBitboard = sqbit (From (m u));
       let toBitboard = sqbit (To (m u));
       let s = s(a := upd w FAll (\<lambda>x. x AND NOT toBitboard) (s a));
       let s = s(a := upd w FAll (\<lambda>x. x OR fromBitboard) (s a));
       s \<leftarrow> updp (destTypeBitboard u) (\<lambda>x. x AND NOT toBitboard) s;
       s \<leftarrow> updp (pieceTypeBitboard u) (\<lambda>x. x OR fromBitboard) s;
       s \<leftarrow> (if capturedPieceType u \<noteq> Nothing then do {
              s \<leftarrow> updp (capturedBitboard u) (\<lambda>x. x OR toBitboard) s;
              Some (s(a := upd (\<not> w) FAll (\<lambda>x. x OR toBitboard) (s a))) }
            else Some s);
       let s = (if castleStatus u \<noteq> 0 then
                  (let s = s(a := upd w FRooks (\<lambda>x. x AND NOT (sqbit (newRookLoc u))) (s a));
                       s = s(a := upd w FAll (\<lambda>x. x AND NOT (sqbit (newRookLoc u))) (s a));
                       s = s(a := upd w FRooks (\<lambda>x. x OR sqbit (oldRookLoc u)) (s a))
                   in s(a := upd w FAll (\<lambda>x. x OR sqbit (oldRookLoc u)) (s a)))
                else s);
       let s = s(a := (s a)\<lparr>enpassant := oldEpCaptureSquare u\<rparr>);
       let s = (if actuallyPerformedEpCapture u then
                  (let epOpponentPawnLocation = oldEpCaptureSquare u + epDelta;
                       s = s(a := upd (\<not> w) FPawns (\<lambda>x. x OR sqbit epOpponentPawnLocation) (s a))
                   in s(a := upd (\<not> w) FAll (\<lambda>x. x OR sqbit epOpponentPawnLocation) (s a)))
                else s);
       let s = (if \<not> Wtomove (s a) then s(a := (s a)\<lparr>Fullmoveno := Fullmoveno (s a) - 1\<rparr>)
                else s);
       let s = (if flippedKsCastle u then s(a := flipKingsideCastle zc (s a)) else s);
       let s = (if flippedQsCastle u then s(a := flipQueensideCastle zc (s a)) else s);
       let s = (if flippedOppKsCastle u then s(a := flipOppKingsideCastle zc (s a)) else s);
       let s = (if flippedOppQsCastle u then s(a := flipOppQueensideCastle zc (s a)) else s);
       let s = s(a := (s a)\<lparr>hash := hashBefore u\<rparr>);
       Some (s(a := (s a)\<lparr>history := butlast (history (s a))\<rparr>)) })"

text \<open>\<open>Clone\<close> builds a new board from the fields of its receiver; the history slice is
  copied element by element, pointers included. \<open>Clone_st a c s\<close> places the result at the
  fresh address \<open>c\<close>.\<close>

definition Clone :: "Board \<Rightarrow> Board" where
  "Clone b = \<lparr>Wtomove = Wtomove b, enpassant = enpassant b, castlerights = castlerights b,
              Halfmoveclock = Halfmoveclock b, Fullmoveno = Fullmoveno b,
              White = White b, Black = Black b, hash = hash b,
              history = map (\<lambda>h. h) (history b),
              termination' = termination' b, irreversibleIdx = irreversibleIdx b\<rparr>"

definition Clone_st :: "addr \<Rightarrow> addr \<Rightarrow> store \<Rightarrow> store" where
  "Clone_st a c s = s(c := Clone (s a))"

section \<open>The standard initial position\<close>

text \<open>Modelled from the spec: \<open>NewBoard\<close> parses the standard initial position (the parser
  is absent). The board holds the 32 pieces on their home squares, White to move, all four
  castling rights, no en-passant square, and a history that holds only the root sentinel
  entry, whose \<open>hashCurrent\<close> is the hash of the position. The initial value \<open>h0\<close> of the
  hash is computed by the absent parser from the Zobrist tables and is a parameter.\<close>

definition root_entry :: "u64 \<Rightarrow> History" where
  "root_entry h0 = \<lparr>hashBefore = 0, hashCurrent = h0, resetHalfmoveClockFrom = 0,
     oldRookLoc = 0, newRookLoc = 0, flippedKsCastle = False, flippedQsCastle = False,
     flippedOppKsCastle = False, flippedOppQsCastle = False, capturedBitboard = None,
     actuallyPerformedEpCapture = False, m = 0, oldEpCaptureSquare = 0, castleStatus = 0,
     capturedPieceType = Nothing, pieceType = Nothing, promotedToPieceType = Nothing,
     destTypeBitboard = None, pieceTypeBitboard = None\<rparr>"

definition NewBoard :: "u64 \<Rightarrow> Board" where
  "NewBoard h0 = \<lparr>Wtomove = True, enpassant = 0, castlerights = 0xF, Halfmoveclock = 0,
     Fullmoveno = 1,
     White = \<lparr>Pawns = 0xFF00, Bishops = 0x24, Knights = 0x42, Rooks = 0x81, Queens = 0x8,
              Kings = 0x10, Allbb = 0xFFFF\<rparr>,
     Black = \<lparr>Pawns = 0x00FF000000000000, Bishops = 0x2400000000000000,
              Knights = 0x4200000000000000, Rooks = 0x8100000000000000,
              Queens = 0x0800000000000000, Kings = 0x1000000000000000,
              Allbb = 0xFFFF000000000000\<rparr>,
     hash = h0, history = [root_entry h0], termination' = TerminationNone,
     irreversibleIdx = 0\<rparr>"

text \<open>A move in long algebraic form: origin, destination, no promotion.\<close>

definition mk_move :: "u8 \<Rightarrow> u8 \<Rightarrow> Move" where
  "mk_move f t = Setto t (Setfrom f 0)"

section \<open>Repetition\<close>

text \<open>The loop of \<open>IsRepetition\<close>: \<open>i\<close> runs down from the last index in steps of 2 while it
  stays at or above \<open>irreversibleIdx\<close> and fewer than 3 matches were counted. An index outside
  the history is an index-out-of-range panic (\<open>None\<close>).\<close>

function rep_loop :: "Board \<Rightarrow> int \<Rightarrow> nat \<Rightarrow> nat option" where
  "rep_loop b i count =
     (if i \<ge> irreversibleIdx b \<and> count < 3 then
        (if 0 \<le> i \<and> i < int (length (history b)) then
           rep_loop b (i - 2)
             (if hashCurrent (history b ! nat i) = Hash b then count + 1 else count)
         else None)
      else Some count)"
  by pat_completeness auto
termination
  by (relation "measure (\<lambda>(b, i, count). nat (i + 1))") auto

definition IsRepetition :: "Board \<Rightarrow> nat \<Rightarrow> bool option" where
  "IsRepetition b nTimes =
     map_option (\<lambda>count. count = nTimes) (rep_loop b (int (length (history b)) - 1) 0)"

section \<open>Termination\<close>


definition Termination :: "Board \<Rightarrow> Termination" where
  "Termination b = termination' b"

section \<open>Concrete inputs\<close>

text \<open>A sample instance of the Zobrist tables, used where a closed statement needs one.\<close>

definition zobrist_sample :: zobrist where
  "zobrist_sample =
     \<lparr>pieceSquareZobristC = (\<lambda>i sq. of_nat (64 * i + sq + 1) * 0x9E3779B97F4A7C15),
      castleRightsZobristC = (\<lambda>k. of_nat (k + 1) * 0xC2B2AE3D27D4EB4F),
      whiteToMoveZobristC = 0x165667B19E3779F9\<rparr>"

definition e2e4 :: Move where "e2e4 = mk_move 12 28"
definition e7e5 :: Move where "e7e5 = mk_move 52 36"
definition g1f3 :: Move where "g1f3 = mk_move 6 21"

text \<open>The three half-moves 1.e4 e5 2.Nf3 and the transposed order 1.Nf3 e5 2.e4, each applied
  to a fresh board whose initial hash is \<open>h0\<close>.\<close>

definition line_e4_e5_Nf3 :: "zobrist \<Rightarrow> u64 \<Rightarrow> Board option" where
  "line_e4_e5_Nf3 zc h0 = Make zc 0 e2e4 (NewBoard h0) \<bind> Make zc 0 e7e5 \<bind> Make zc 0 g1f3"

definition line_Nf3_e5_e4 :: "zobrist \<Rightarrow> u64 \<Rightarrow> Board option" where
  "line_Nf3_e5_e4 zc h0 = Make zc 0 g1f3 (NewBoard h0) \<bind> Make zc 0 e7e5 \<bind> Make zc 0 e2e4"

text \<open>A store whose address 0 holds a fresh board; address 1 is where a clone is placed.\<close>

definition store0 :: store where
  "store0 = (\<lambda>_. NewBoard 0)"

text \<open>White has a king, two knights and two bishops; Black has a bare king.\<close>

definition two_knights_two_bishops :: Board where
  "two_knights_two_bishops = (NewBoard 0)
     \<lparr>White := \<lparr>Pawns = 0, Bishops = 0x24, Knights = 0x42, Rooks = 0, Queens = 0,
                 Kings = 0x10, Allbb = 0x76\<rparr>,
      Black := \<lparr>Pawns = 0, Bishops = 0, Knights = 0, Rooks = 0, Queens = 0,
                 Kings = 0x1000000000000000, Allbb = 0x1000000000000000\<rparr>,
      castlerights := 0\<rparr>"


text \<open>The drawn-material table in the words of the specification (permissive variant): a
  side is within the table when it has at most one bishop and at most one knight, which
  covers the bare king and the king with one minor piece.\<close>

definition spec_within_table :: "Bitboards \<Rightarrow> bool" where
  "spec_within_table bb \<longleftrightarrow> OnesCount64 (Bishops bb) \<le> 1 \<and> OnesCount64 (Knights bb) \<le> 1"

definition spec_insufficient :: "Board \<Rightarrow> bool" where
  "spec_insufficient b \<longleftrightarrow>
     (Queens (White b) OR Rooks (White b) OR Pawns (White b)) = 0 \<and>
     (Queens (Black b) OR Rooks (Black b) OR Pawns (Black b)) = 0 \<and>
     spec_within_table (White b) \<and> spec_within_table (Black b)"


section \<open>Auxiliary definitions for the statements and proofs\<close>

text \<open>The board \<open>Make\<close> returns for a move that is neither a capture, a castling move, an
  en-passant capture nor a promotion, made by a piece other than a king or rook: written
  out block by block. \<open>move_bb\<close> is its effect on the mover's bitboards, and \<open>W0\<close>, \<open>B0\<close> are
  the bitboards of the initial position.\<close>

definition quiet_result :: "zobrist \<Rightarrow> addr \<Rightarrow> Move \<Rightarrow> Piece \<Rightarrow> bbfield \<Rightarrow> Board \<Rightarrow> Board" where
  "quiet_result zc a mv pt ptf b =
    (let w = Wtomove b;
         reset = (IsCapture mv b \<or> pt = Pawn);
         ep' = (if pt = Pawn \<and> To mv + 2 * epDelta w = From mv then To mv + epDelta w else 0);
         h' = ((((hash b
           XOR pieceSquareZobristC zc (nat (int pt - 1 + ourPiecesPawnZobristIndex w)) (unat (From mv)))
           XOR pieceSquareZobristC zc (nat (int pt - 1 + ourPiecesPawnZobristIndex w)) (unat (To mv)))
           XOR whiteToMoveZobristC zc) XOR ucast (enpassant b)) XOR ucast ep';
         r = (if reset then uint (Halfmoveclock b) else - 1)
     in (upd w ptf (\<lambda>x. x OR sqbit (To mv))
         (upd w ptf (\<lambda>x. x AND NOT (sqbit (From mv)))
           (upd w FAll (\<lambda>x. x OR sqbit (To mv))
             (upd w FAll (\<lambda>x. x AND NOT (sqbit (From mv))) b))))
        \<lparr>Wtomove := \<not> w, enpassant := ep',
         Halfmoveclock := (if reset then 0 else Halfmoveclock b + 1),
         Fullmoveno := (if w then Fullmoveno b else Fullmoveno b + 1),
         hash := h',
         history := history b @
           [\<lparr>hashBefore = hash b, hashCurrent = h', resetHalfmoveClockFrom = r,
             oldRookLoc = 0, newRookLoc = 0, flippedKsCastle = False, flippedQsCastle = False,
             flippedOppKsCastle = False, flippedOppQsCastle = False,
             capturedBitboard = Some (BBPtr a (\<not> w) FAll),
             actuallyPerformedEpCapture = False, m = mv, oldEpCaptureSquare = enpassant b,
             castleStatus = 0, capturedPieceType = Nothing, pieceType = pt,
             promotedToPieceType = pt,
             destTypeBitboard = Some (BBPtr a w ptf), pieceTypeBitboard = Some (BBPtr a w ptf)\<rparr>],
         irreversibleIdx := (if reset then int (length (history b)) - 1 else irreversibleIdx b)\<rparr>)"

definition move_bb :: "bbfield \<Rightarrow> u8 \<Rightarrow> u8 \<Rightarrow> Bitboards \<Rightarrow> Bitboards" where
  "move_bb f fr to bb =
     bbset f ((bbget f bb AND NOT (sqbit fr)) OR sqbit to)
       (bb\<lparr>Allbb := (Allbb bb AND NOT (sqbit fr)) OR sqbit to\<rparr>)"

definition W0 :: Bitboards where
  "W0 = \<lparr>Pawns = 0xFF00, Bishops = 0x24, Knights = 0x42, Rooks = 0x81, Queens = 0x8,
              Kings = 0x10, Allbb = 0xFFFF\<rparr>"
definition B0 :: Bitboards where
  "B0 = \<lparr>Pawns = 0x00FF000000000000, Bishops = 0x2400000000000000,
              Knights = 0x4200000000000000, Rooks = 0x8100000000000000,
              Queens = 0x0800000000000000, Kings = 0x1000000000000000,
              Allbb = 0xFFFF000000000000\<rparr>"


text \<open>Both sides move a knight out and back, twice: the initial position occurs three
  times, at the root entry and after the fourth and the eighth half-move.\<close>

definition knights_out_and_back :: "zobrist \<Rightarrow> u64 \<Rightarrow> Board option" where
  "knights_out_and_back zc h0 = do {
     b \<leftarrow> Make zc 0 (mk_move 6 21) (NewBoard h0);
     b \<leftarrow> Make zc 0 (mk_move 62 45) b;
     b \<leftarrow> Make zc 0 (mk_move 21 6) b;
     b \<leftarrow> Make zc 0 (mk_move 45 62) b;
     b \<leftarrow> Make zc 0 (mk_move 6 21) b;
     b \<leftarrow> Make zc 0 (mk_move 62 45) b;
     b \<leftarrow> Make zc 0 (mk_move 21 6) b;
     Make zc 0 (mk_move 45 62) b }"

text \<open>After those eight half-moves the board makes the pawn move e2e4 and takes it back
  with \<open>Undo\<close>. The result is the board before and the board after the two calls.\<close>

definition try_pawn_move_and_undo :: "zobrist \<Rightarrow> u64 \<Rightarrow> (Board \<times> Board) option" where
  "try_pawn_move_and_undo zc h0 = do {
     b \<leftarrow> knights_out_and_back zc h0;
     s \<leftarrow> Make_st zc 0 e2e4 (\<lambda>_. b);
     s \<leftarrow> Undo zc 0 s;
     Some (b, s 0) }"


section \<open>Properties\<close>

subsection \<open>Insufficient material\<close>

text \<open>Claim C4, at the failing input. With a king, two knights and two bishops against a
  bare king no pawn, rook or queen is left, and White's minor pieces are outside the
  drawn-material table (two bishops, two knights), yet \<open>IsInsufficientMaterial\<close> returns
  true: \<open>oneOrLess\<close> joins its tests with "or", and the two sides are joined with "or".\<close>

theorem C4_two_knights_two_bishops:
  "fst (IsInsufficientMaterial two_knights_two_bishops) = True \<and>
   spec_insufficient two_knights_two_bishops = False"
  by code_simp

theorem C4_two_knights_two_bishops_witness:
  "fst (IsInsufficientMaterial two_knights_two_bishops)"
  using C4_two_knights_two_bishops by simp

subsection \<open>Hash transposition\<close>

text \<open>Claim C5, counterexample. With the sample Zobrist tables and initial hash 0, the
  boards after 1.e4 e5 2.Nf3 and after 1.Nf3 e5 2.e4 both exist and their hashes differ.\<close>

theorem C5_transposition_counterexample:
  "map_option Hash (line_e4_e5_Nf3 zobrist_sample 0) \<noteq>
   map_option Hash (line_Nf3_e5_e4 zobrist_sample 0) \<and>
   line_e4_e5_Nf3 zobrist_sample 0 \<noteq> None \<and> line_Nf3_e5_e4 zobrist_sample 0 \<noteq> None"
  by code_simp

subsection \<open>Clone and Undo\<close>

text \<open>Claim C10, at the failing input. The fresh board at address 0 makes e2e4, is cloned
  to address 1, and the clone undoes the move. Before the move White's pawns are
  \<open>0xFF00\<close>; after it they are \<open>0x1000EF00\<close> and White's aggregate mask is \<open>0x1000EFFF\<close>.
  After the clone's \<open>Undo\<close> the clone's pawns are still \<open>0x1000EF00\<close> (not restored), while
  the pawns of the original have become \<open>0xFF00\<close> (changed, and no longer matching its
  aggregate mask): the history entry copied by \<open>Clone\<close> points into the original.\<close>

theorem C10_clone_undo_writes_original:
  "map_option (\<lambda>s. (Pawns (White (s 1)), Allbb (White (s 1)),
                     Pawns (White (s 0)), Allbb (White (s 0))))
     (Make_st zobrist_sample 0 e2e4 store0 \<bind>
        (\<lambda>s. Undo zobrist_sample 1 (Clone_st 0 1 s)))
   = Some (0x1000EF00, 0xFFFF, 0xFF00, 0x1000EFFF)"
  by code_simp

theorem C10_clone_undo_writes_original_witness:
  "(Make_st zobrist_sample 0 e2e4 store0 \<bind>
      (\<lambda>s. Undo zobrist_sample 1 (Clone_st 0 1 s))) \<noteq> None"
  using C10_clone_undo_writes_original by fastforce

subsection \<open>Termination reasons\<close>

lemma CountAttacks_frame:
  "White b = White b' \<Longrightarrow> Black b = Black b' \<Longrightarrow> CountAttacks b = CountAttacks b'"
  by (intro ext) (simp only: CountAttacks_def)

lemma OurKingInCheck_frame:
  "White b = White b' \<Longrightarrow> Black b = Black b' \<Longrightarrow> Wtomove b = Wtomove b' \<Longrightarrow>
   OurKingInCheck b = OurKingInCheck b'"
  unfolding OurKingInCheck_def by (simp add: CountAttacks_frame [of b b'])

lemma OurKingInCheck_termination [simp]:
  "OurKingInCheck (b\<lparr>termination' := t\<rparr>) = OurKingInCheck b"
  by (rule OurKingInCheck_frame) simp_all









subsection \<open>Make on quiet moves, and the transposition of claim C5\<close>

subsection \<open>Moves and square masks\<close>

lemma masks16: "(0x3F :: u16) = mask 6" "(0xFC0 :: u16) = push_bit 6 (mask 6)"
  "(0x7000 :: u16) = push_bit 12 (mask 3)"
  by (simp_all add: mask_eq_exp_minus_1)

lemma To_alt: "To mv = ucast (take_bit 6 mv)"
  unfolding To_def masks16 by (simp add: take_bit_eq_mask)

lemma From_alt: "From mv = ucast (take_bit 6 (drop_bit 6 mv))"
  unfolding From_def masks16
  by (rule bit_word_eqI) (auto simp: bit_simps)

lemma Promote_alt: "Promote mv = unat (take_bit 3 (drop_bit 12 mv))"
  unfolding Promote_def masks16
  by (rule arg_cong [where f = unat], rule bit_word_eqI) (auto simp: bit_simps)

lemma unat_ucast_take6: "unat (ucast (take_bit 6 (x :: u16)) :: u8) < 64"
proof -
  have "unat (take_bit 6 x) < 64"
    using take_bit_nat_less_exp [of 6 "unat x"] by (simp add: unsigned_take_bit_eq)
  then show ?thesis by (simp add: unsigned_ucast_eq take_bit_nat_eq_self)
qed

lemma unat_To_lt [simp]: "unat (To mv) < 64"
  unfolding To_alt by (rule unat_ucast_take6)

lemma unat_From_lt [simp]: "unat (From mv) < 64"
  unfolding From_alt by (rule unat_ucast_take6)

lemma bit_sqbit: "bit (sqbit s) n \<longleftrightarrow> n = unat s \<and> n < 64"
  unfolding sqbit_def by (auto simp: bit_simps)

subsection \<open>The blocks of Make on a move that does not take their branch\<close>

lemma Make_kingRights_other: "pt \<noteq> King \<Longrightarrow> Make_kingRights zc pt b = (False, False, b)"
  by (simp add: Make_kingRights_def)

lemma Make_rookRights_other: "pt \<noteq> Rook \<Longrightarrow> Make_rookRights zc pt fb b = (False, False, b)"
  by (simp add: Make_rookRights_def)

lemma Make_castleGeom_other: "pt \<noteq> King \<Longrightarrow> Make_castleGeom mv pt = (0, 0, 0)"
  by (simp add: Make_castleGeom_def)

lemma Make_castleRook_none: "Make_castleRook zc 0 oldR newR b = Some b"
  by (simp add: Make_castleRook_def)

lemma Make_epCapture_none:
  "\<not> (pt = Pawn \<and> To mv = enpassant b \<and> enpassant b \<noteq> 0) \<Longrightarrow>
   Make_epCapture zc pt mv b = Some (False, b)"
  by (auto simp: Make_epCapture_def Let_def)

lemma Make_promotion_none:
  "Promote mv = 0 \<Longrightarrow> Make_promotion mv pt ptf = (ptf, pt)"
  by (simp add: Make_promotion_def Piece_defs)

lemma Make_oppRights_none: "capt \<noteq> Rook \<Longrightarrow> Make_oppRights zc mv capt b = (False, False, b)"
  by (simp add: Make_oppRights_def)

lemma upd_scalars [simp]:
  "Wtomove (upd w f g b) = Wtomove b" "enpassant (upd w f g b) = enpassant b"
  "castlerights (upd w f g b) = castlerights b" "Halfmoveclock (upd w f g b) = Halfmoveclock b"
  "Fullmoveno (upd w f g b) = Fullmoveno b" "hash (upd w f g b) = hash b"
  "history (upd w f g b) = history b" "termination' (upd w f g b) = termination' b"
  "irreversibleIdx (upd w f g b) = irreversibleIdx b"
  by (simp_all add: upd_def set_side_def)

lemma side_upd_other [simp]: "side (\<not> w) (upd w f g b) = side (\<not> w) b"
  by (simp add: upd_def set_side_def side_def)

lemma side_upd_other' [simp]: "side w (upd (\<not> w) f g b) = side w b"
  by (simp add: upd_def set_side_def side_def)

lemma Make_applyMove_quiet:
  assumes "determinePieceType (side (\<not> Wtomove b) b) (sqbit (To mv)) = (Nothing, FAll)"
    and "pt \<noteq> Nothing" "pt < 7"
  shows "Make_applyMove zc mv pt ptf pt ptf b =
     Some (Nothing, FAll,
       (upd (Wtomove b) ptf (\<lambda>x. x OR sqbit (To mv))
         (upd (Wtomove b) ptf (\<lambda>x. x AND NOT (sqbit (From mv)))
           (upd (Wtomove b) FAll (\<lambda>x. x OR sqbit (To mv))
             (upd (Wtomove b) FAll (\<lambda>x. x AND NOT (sqbit (From mv))) b))))
        \<lparr>hash := (hash b
           XOR pieceSquareZobristC zc (nat (int pt - 1 + ourPiecesPawnZobristIndex (Wtomove b))) (unat (From mv)))
           XOR pieceSquareZobristC zc (nat (int pt - 1 + ourPiecesPawnZobristIndex (Wtomove b))) (unat (To mv))\<rparr>)"
  using assms
  by (simp add: Make_applyMove_def Let_def zsq_def Piece_defs ourPiecesPawnZobristIndex_def)

lemma Make_quiet:
  assumes pt: "determinePieceType (side (Wtomove b) b) (sqbit (From mv)) = (pt, ptf)"
    and ptk: "pt \<noteq> King" "pt \<noteq> Rook" "pt \<noteq> Nothing" "pt < 7"
    and nocap: "determinePieceType (side (\<not> Wtomove b) b) (sqbit (To mv)) = (Nothing, FAll)"
    and noep: "\<not> (pt = Pawn \<and> To mv = enpassant b \<and> enpassant b \<noteq> 0)"
    and noprom: "Promote mv = 0"
  shows "Make zc a mv b = Some (quiet_result zc a mv pt ptf b)"
proof -
  let ?bF = "if Wtomove b then b else b\<lparr>Fullmoveno := Fullmoveno b + 1\<rparr>"
  have sF: "side (Wtomove b) ?bF = side (Wtomove b) b" "side (\<not> Wtomove b) ?bF = side (\<not> Wtomove b) b"
    by (simp_all add: side_def)
  obtain r b1 where c: "Make_clock mv pt ?bF = (r, b1)" by fastforce
  have b1: "b1 = ?bF\<lparr>Halfmoveclock := (if IsCapture mv b \<or> pt = Pawn then 0 else Halfmoveclock b + 1),
       irreversibleIdx := (if IsCapture mv b \<or> pt = Pawn then int (length (history b)) - 1 else irreversibleIdx b)\<rparr>"
     and r: "r = (if IsCapture mv b \<or> pt = Pawn then uint (Halfmoveclock b) else - 1)"
    using c by (auto simp: Make_clock_def IsCapture_def split: if_splits)
  have w1: "Wtomove b1 = Wtomove b" "enpassant b1 = enpassant b" "hash b1 = hash b"
    "side (\<not> Wtomove b) b1 = side (\<not> Wtomove b) b"
    by (simp_all add: b1 side_def)
  have ep: "Make_epCapture zc pt mv b1 = Some (False, b1)"
    using noep by (intro Make_epCapture_none) (simp add: w1)
  let ?b6 = "Make_epSquare pt mv b1"
  have w6: "Wtomove ?b6 = Wtomove b" "side (\<not> Wtomove b) ?b6 = side (\<not> Wtomove b) b"
    by (simp_all add: Make_epSquare_def w1 side_def b1)
  have ap: "Make_applyMove zc mv pt ptf pt ptf ?b6 = Some (Nothing, FAll, 
       (upd (Wtomove b) ptf (\<lambda>x. x OR sqbit (To mv))
         (upd (Wtomove b) ptf (\<lambda>x. x AND NOT (sqbit (From mv)))
           (upd (Wtomove b) FAll (\<lambda>x. x OR sqbit (To mv))
             (upd (Wtomove b) FAll (\<lambda>x. x AND NOT (sqbit (From mv))) ?b6))))
        \<lparr>hash := (hash ?b6
           XOR pieceSquareZobristC zc (nat (int pt - 1 + ourPiecesPawnZobristIndex (Wtomove b))) (unat (From mv)))
           XOR pieceSquareZobristC zc (nat (int pt - 1 + ourPiecesPawnZobristIndex (Wtomove b))) (unat (To mv))\<rparr>)"
    using Make_applyMove_quiet [of ?b6 mv pt zc ptf] nocap ptk by (simp add: w6)
  let ?b7 = "(upd (Wtomove b) ptf (\<lambda>x. x OR sqbit (To mv))
         (upd (Wtomove b) ptf (\<lambda>x. x AND NOT (sqbit (From mv)))
           (upd (Wtomove b) FAll (\<lambda>x. x OR sqbit (To mv))
             (upd (Wtomove b) FAll (\<lambda>x. x AND NOT (sqbit (From mv))) ?b6))))
        \<lparr>hash := (hash ?b6
           XOR pieceSquareZobristC zc (nat (int pt - 1 + ourPiecesPawnZobristIndex (Wtomove b))) (unat (From mv)))
           XOR pieceSquareZobristC zc (nat (int pt - 1 + ourPiecesPawnZobristIndex (Wtomove b))) (unat (To mv))\<rparr>"
  let ?u = "\<lparr>hashBefore = hash b, hashCurrent = hash (Make_flipSide zc (enpassant b) ?b7),
             resetHalfmoveClockFrom = r,
             oldRookLoc = 0, newRookLoc = 0, flippedKsCastle = False, flippedQsCastle = False,
             flippedOppKsCastle = False, flippedOppQsCastle = False,
             capturedBitboard = Some (BBPtr a (\<not> Wtomove b) FAll),
             actuallyPerformedEpCapture = False, m = mv, oldEpCaptureSquare = enpassant b,
             castleStatus = 0, capturedPieceType = Nothing, pieceType = pt,
             promotedToPieceType = pt,
             destTypeBitboard = Some (BBPtr a (Wtomove b) ptf),
             pieceTypeBitboard = Some (BBPtr a (Wtomove b) ptf)\<rparr>"
  have M: "Make zc a mv b = Some ((Make_flipSide zc (enpassant b) ?b7)
      \<lparr>history := history (Make_flipSide zc (enpassant b) ?b7) @ [?u]\<rparr>)"
    using ptk
    by (simp add: Make_def Let_def sF pt c Make_kingRights_other Make_rookRights_other
      Make_castleGeom_other Make_castleRook_none ep Make_promotion_none [OF noprom] ap
      Make_oppRights_none Piece_defs w1)
  have W: "White (upd w f g x) = (if w then bbset f (g (bbget f (White x))) (White x) else White x)"
     "Black (upd w f g x) = (if w then Black x else bbset f (g (bbget f (Black x))) (Black x))"
    for w f g x
    by (simp_all add: upd_def set_side_def side_def)
  have b6: "White ?b6 = White b" "Black ?b6 = Black b" "hash ?b6 = hash b"
    "enpassant ?b6 = (if pt = Pawn \<and> To mv + 2 * epDelta (Wtomove b) = From mv then To mv + epDelta (Wtomove b) else 0)"
    "Halfmoveclock ?b6 = (if IsCapture mv b \<or> pt = Pawn then 0 else Halfmoveclock b + 1)"
    "Fullmoveno ?b6 = (if Wtomove b then Fullmoveno b else Fullmoveno b + 1)"
    "history ?b6 = history b" "termination' ?b6 = termination' b" "castlerights ?b6 = castlerights b"
    "irreversibleIdx ?b6 = (if IsCapture mv b \<or> pt = Pawn then int (length (history b)) - 1 else irreversibleIdx b)"
    by (auto simp: Make_epSquare_def b1 w1)
  have hsh: "hash (Make_flipSide zc oe x) = ((hash x XOR whiteToMoveZobristC zc) XOR ucast oe) XOR ucast (enpassant x)"
    for oe x by (simp add: Make_flipSide_def Let_def)
  have fs: "Wtomove (Make_flipSide zc oe x) = (\<not> Wtomove x)"
      "White (Make_flipSide zc oe x) = White x" "Black (Make_flipSide zc oe x) = Black x"
      "enpassant (Make_flipSide zc oe x) = enpassant x"
      "castlerights (Make_flipSide zc oe x) = castlerights x"
      "Halfmoveclock (Make_flipSide zc oe x) = Halfmoveclock x"
      "Fullmoveno (Make_flipSide zc oe x) = Fullmoveno x"
      "history (Make_flipSide zc oe x) = history x"
      "termination' (Make_flipSide zc oe x) = termination' x"
      "irreversibleIdx (Make_flipSide zc oe x) = irreversibleIdx x"
    for oe x by (simp_all add: Make_flipSide_def Let_def)
  have "(Make_flipSide zc (enpassant b) ?b7)
      \<lparr>history := history (Make_flipSide zc (enpassant b) ?b7) @ [?u]\<rparr> = quiet_result zc a mv pt ptf b"
    by (rule Board.equality) (auto simp: quiet_result_def Let_def W b6 w6 hsh fs r)
  with M show ?thesis by simp
qed

lemma mv_simps [simp]: "From e2e4 = 12" "To e2e4 = 28" "Promote e2e4 = 0"
  "From e7e5 = 52" "To e7e5 = 36" "Promote e7e5 = 0"
  "From g1f3 = 6" "To g1f3 = 21" "Promote g1f3 = 0"
  by (simp_all add: e2e4_def e7e5_def g1f3_def mk_move_def Setto_def Setfrom_def From_def To_def Promote_def)

lemma side_upd_same:
  "side w (upd w f g b) = bbset f (g (bbget f (side w b))) (side w b)"
  by (simp add: upd_def set_side_def side_def)

lemma White_upd: "White (upd w f g x) = (if w then bbset f (g (bbget f (White x))) (White x) else White x)"
  by (simp add: upd_def set_side_def side_def)

lemma Black_upd: "Black (upd w f g x) = (if w then Black x else bbset f (g (bbget f (Black x))) (Black x))"
  by (simp add: upd_def set_side_def side_def)

lemma quiet_result_fields:
  "Wtomove (quiet_result zc a mv pt ptf b) = (\<not> Wtomove b)"
  "enpassant (quiet_result zc a mv pt ptf b) =
     (if pt = Pawn \<and> To mv + 2 * epDelta (Wtomove b) = From mv then To mv + epDelta (Wtomove b) else 0)"
  "castlerights (quiet_result zc a mv pt ptf b) = castlerights b"
  "side (\<not> Wtomove b) (quiet_result zc a mv pt ptf b) = side (\<not> Wtomove b) b"
  "side (Wtomove b) (quiet_result zc a mv pt ptf b) =
     side (Wtomove b) (upd (Wtomove b) ptf (\<lambda>x. x OR sqbit (To mv))
         (upd (Wtomove b) ptf (\<lambda>x. x AND NOT (sqbit (From mv)))
           (upd (Wtomove b) FAll (\<lambda>x. x OR sqbit (To mv))
             (upd (Wtomove b) FAll (\<lambda>x. x AND NOT (sqbit (From mv))) b))))"
  "hash (quiet_result zc a mv pt ptf b) = ((((hash b
           XOR pieceSquareZobristC zc (nat (int pt - 1 + ourPiecesPawnZobristIndex (Wtomove b))) (unat (From mv)))
           XOR pieceSquareZobristC zc (nat (int pt - 1 + ourPiecesPawnZobristIndex (Wtomove b))) (unat (To mv)))
           XOR whiteToMoveZobristC zc) XOR ucast (enpassant b)) XOR
           ucast (if pt = Pawn \<and> To mv + 2 * epDelta (Wtomove b) = From mv then To mv + epDelta (Wtomove b) else 0)"
  by (simp_all add: quiet_result_def Let_def side_def White_upd Black_upd)

lemmas eval_defs = determinePieceType_def sqbit_def Piece_defs

lemma quiet_step:
  assumes b: "Wtomove b = w" "enpassant b = ep" "hash b = h" "side w b = our" "side w' b = opp"
    and w': "w' = (\<not> w)"
    and pt: "determinePieceType our (sqbit (From mv)) = (pt, ptf)"
    and ptk: "pt \<noteq> King" "pt \<noteq> Rook" "pt \<noteq> Nothing" "pt < 7" "ptf \<noteq> FAll"
    and nocap: "determinePieceType opp (sqbit (To mv)) = (Nothing, FAll)"
    and noep: "\<not> (pt = Pawn \<and> To mv = ep \<and> ep \<noteq> 0)"
    and noprom: "Promote mv = 0"
  shows "\<exists>b'. Make zc a mv b = Some b' \<and> Wtomove b' = w' \<and>
     enpassant b' = (if pt = Pawn \<and> To mv + 2 * epDelta w = From mv then To mv + epDelta w else 0) \<and>
     hash b' = ((((h
           XOR pieceSquareZobristC zc (nat (int pt - 1 + ourPiecesPawnZobristIndex w)) (unat (From mv)))
           XOR pieceSquareZobristC zc (nat (int pt - 1 + ourPiecesPawnZobristIndex w)) (unat (To mv)))
           XOR whiteToMoveZobristC zc) XOR ucast ep) XOR
           ucast (if pt = Pawn \<and> To mv + 2 * epDelta w = From mv then To mv + epDelta w else 0) \<and>
     side w b' = move_bb ptf (From mv) (To mv) our \<and> side w' b' = opp \<and>
     castlerights b' = castlerights b"
proof -
  have M: "Make zc a mv b = Some (quiet_result zc a mv pt ptf b)"
    by (rule Make_quiet) (use assms in simp_all)
  have sd: "side (Wtomove b) (quiet_result zc a mv pt ptf b) = move_bb ptf (From mv) (To mv) our"
    using ptk(5) b(4) unfolding b(1) [symmetric]
    by (cases ptf) (simp_all add: quiet_result_fields(5) side_upd_same move_bb_def)
  note q = quiet_result_fields [where b = b and zc = zc and a = a and mv = mv and pt = pt
      and ptf = ptf, unfolded b(1-4), folded w', unfolded b(5)]
  show ?thesis
    using M sd [unfolded b] q(1,2,3,4,6) w' by (intro exI [of _ "quiet_result zc a mv pt ptf b"]) simp
qed

lemma NewBoard_fields:
  "Wtomove (NewBoard h0) = True" "enpassant (NewBoard h0) = 0" "hash (NewBoard h0) = h0"
  "side True (NewBoard h0) = W0" "side False (NewBoard h0) = B0"
  by (simp_all add: NewBoard_def side_def W0_def B0_def)

lemmas step_eval = determinePieceType_def sqbit_def Piece_defs move_bb_def W0_def B0_def
  epDelta_def ourPiecesPawnZobristIndex_def

text \<open>Claim C5, as amended. For every instance of the Zobrist tables and every initial hash,
  both move orders are applied without a panic and lead to boards with the same bitboards,
  side to move and castling rights; the board after 1.Nf3 e5 2.e4 has the en-passant square
  e3 (20) set by its last move, the board after 1.e4 e5 2.Nf3 has none, and the two hashes
  differ exactly by that square: one is the other XOR 20.\<close>

theorem C5_hashes_differ_by_en_passant_square:
  "\<exists>b1 b2. line_e4_e5_Nf3 zc h0 = Some b1 \<and> line_Nf3_e5_e4 zc h0 = Some b2 \<and>
     Hash b2 = Hash b1 XOR 20 \<and> enpassant b1 = 0 \<and> enpassant b2 = 20 \<and>
     White b1 = White b2 \<and> Black b1 = Black b2 \<and> Wtomove b1 = Wtomove b2 \<and>
     castlerights b1 = castlerights b2"
proof -
  let ?Z = "pieceSquareZobristC zc" and ?T = "whiteToMoveZobristC zc"
  \<comment> \<open>1.e4 e5 2.Nf3\<close>
  from quiet_step [OF NewBoard_fields, where mv = e2e4 and pt = Pawn and ptf = FPawns
      and zc = zc and a = 0]
  obtain c1 where c1: "Make zc 0 e2e4 (NewBoard h0) = Some c1" "Wtomove c1 = False"
    "enpassant c1 = 20" "hash c1 = ((((h0 XOR ?Z 0 12) XOR ?Z 0 28) XOR ?T) XOR 0) XOR 20"
    "side False c1 = B0" "side True c1 = move_bb FPawns 12 28 W0"
    "castlerights c1 = castlerights (NewBoard h0)"
    by (auto simp: step_eval)
  from quiet_step [OF c1(2,3,4,5,6), where mv = e7e5 and pt = Pawn and ptf = FPawns
      and zc = zc and a = 0]
  obtain c2 where c2: "Make zc 0 e7e5 c1 = Some c2" "Wtomove c2 = True"
    "enpassant c2 = 44"
    "hash c2 = (((((((((h0 XOR ?Z 0 12) XOR ?Z 0 28) XOR ?T) XOR 0) XOR 20)
                  XOR ?Z 6 52) XOR ?Z 6 36) XOR ?T) XOR 20) XOR 44"
    "side True c2 = move_bb FPawns 12 28 W0" "side False c2 = move_bb FPawns 52 36 B0"
    "castlerights c2 = castlerights c1"
    by (auto simp: step_eval)
  from quiet_step [OF c2(2,3,4,5,6), where mv = g1f3 and pt = Knight and ptf = FKnights
      and zc = zc and a = 0]
  obtain c3 where c3: "Make zc 0 g1f3 c2 = Some c3" "Wtomove c3 = False"
    "enpassant c3 = 0"
    "hash c3 = ((((((((((((((h0 XOR ?Z 0 12) XOR ?Z 0 28) XOR ?T) XOR 0) XOR 20)
                  XOR ?Z 6 52) XOR ?Z 6 36) XOR ?T) XOR 20) XOR 44)
                  XOR ?Z 1 6) XOR ?Z 1 21) XOR ?T) XOR 44) XOR 0"
    "side False c3 = move_bb FPawns 52 36 B0"
    "side True c3 = move_bb FKnights 6 21 (move_bb FPawns 12 28 W0)"
    "castlerights c3 = castlerights c2"
    by (auto simp: step_eval)
  \<comment> \<open>1.Nf3 e5 2.e4\<close>
  from quiet_step [OF NewBoard_fields, where mv = g1f3 and pt = Knight and ptf = FKnights
      and zc = zc and a = 0]
  obtain d1 where d1: "Make zc 0 g1f3 (NewBoard h0) = Some d1" "Wtomove d1 = False"
    "enpassant d1 = 0" "hash d1 = ((((h0 XOR ?Z 1 6) XOR ?Z 1 21) XOR ?T) XOR 0) XOR 0"
    "side False d1 = B0" "side True d1 = move_bb FKnights 6 21 W0"
    "castlerights d1 = castlerights (NewBoard h0)"
    by (auto simp: step_eval)
  from quiet_step [OF d1(2,3,4,5,6), where mv = e7e5 and pt = Pawn and ptf = FPawns
      and zc = zc and a = 0]
  obtain d2 where d2: "Make zc 0 e7e5 d1 = Some d2" "Wtomove d2 = True"
    "enpassant d2 = 44"
    "hash d2 = (((((((((h0 XOR ?Z 1 6) XOR ?Z 1 21) XOR ?T) XOR 0) XOR 0)
                  XOR ?Z 6 52) XOR ?Z 6 36) XOR ?T) XOR 0) XOR 44"
    "side True d2 = move_bb FKnights 6 21 W0" "side False d2 = move_bb FPawns 52 36 B0"
    "castlerights d2 = castlerights d1"
    by (auto simp: step_eval)
  from quiet_step [OF d2(2,3,4,5,6), where mv = e2e4 and pt = Pawn and ptf = FPawns
      and zc = zc and a = 0]
  obtain d3 where d3: "Make zc 0 e2e4 d2 = Some d3" "Wtomove d3 = False"
    "enpassant d3 = 20"
    "hash d3 = ((((((((((((((h0 XOR ?Z 1 6) XOR ?Z 1 21) XOR ?T) XOR 0) XOR 0)
                  XOR ?Z 6 52) XOR ?Z 6 36) XOR ?T) XOR 0) XOR 44)
                  XOR ?Z 0 12) XOR ?Z 0 28) XOR ?T) XOR 44) XOR 20"
    "side False d3 = move_bb FPawns 52 36 B0"
    "side True d3 = move_bb FPawns 12 28 (move_bb FKnights 6 21 W0)"
    "castlerights d3 = castlerights d2"
    by (auto simp: step_eval)
  have l1: "line_e4_e5_Nf3 zc h0 = Some c3"
    by (simp add: line_e4_e5_Nf3_def c1 c2 c3)
  have l2: "line_Nf3_e5_e4 zc h0 = Some d3"
    by (simp add: line_Nf3_e5_e4_def d1 d2 d3)
  have wb: "move_bb FKnights 6 21 (move_bb FPawns 12 28 W0) =
            move_bb FPawns 12 28 (move_bb FKnights 6 21 W0)"
    by (simp add: move_bb_def W0_def sqbit_def)
  have hh: "hash d3 = hash c3 XOR 20"
    unfolding c3(4) d3(4) by (simp add: ac_simps)
  have "White c3 = White d3" "Black c3 = Black d3"
    using c3(5,6) d3(5,6) wb by (simp_all add: side_def)
  then show ?thesis
    using l1 l2 hh c3 d3 c2 d2 c1 d1 by (simp add: Hash_def)
qed

theorem C5_hashes_differ_by_en_passant_square_witness:
  "map_option Hash (line_Nf3_e5_e4 zobrist_sample 0) =
   map_option (\<lambda>b. Hash b XOR 20) (line_e4_e5_Nf3 zobrist_sample 0)"
  using C5_hashes_differ_by_en_passant_square [of zobrist_sample 0] by auto

subsection \<open>Repetition\<close>

text \<open>Claim C6, at the failing input. After the knights have gone out and back twice the
  current hash stands at the history entries 0, 4 and 8, no entry is a capture or a pawn
  move, the last-irreversible-ply index is 0 and \<open>IsRepetition(3)\<close> is true. The board then
  makes e2e4 and undoes it. History, hash, bitboards and side to move are as before, but
  \<open>Make\<close> had set the index to 8 and \<open>Undo\<close> left it there: the scan now stops at entry 8
  and \<open>IsRepetition(3)\<close> is false, although the current hash still occurs three times among
  the entries scanned in steps of 2 and nothing irreversible has been played.\<close>

theorem C6_undo_keeps_irreversible_index:
  "map_option (\<lambda>(b, b').
      (IsRepetition b 3, IsRepetition b' 3, irreversibleIdx b, irreversibleIdx b',
       history b' = history b, Hash b' = Hash b, White b' = White b, Black b' = Black b,
       Wtomove b' = Wtomove b,
       list_all (\<lambda>h. pieceType h \<noteq> Pawn \<and> capturedPieceType h = Nothing) (history b'),
       filter (\<lambda>i. hashCurrent (history b' ! i) = Hash b') [0..<length (history b')]))
     (try_pawn_move_and_undo zobrist_sample 0)
   = Some (Some True, Some False, 0, 8, True, True, True, True, True, True, [0, 4, 8])"
  by code_simp

theorem C6_undo_keeps_irreversible_index_witness:
  "try_pawn_move_and_undo zobrist_sample 0 \<noteq> None"
  using C6_undo_keeps_irreversible_index by fastforce

end
